theory Spec2Isabelle
  imports Complex_Main
begin

section \<open>Values of a data frame\<close>

text \<open>
  The program (src/main.py) loads a CSV file with pandas, rewrites up to three named
  columns and writes the frame back. A cell of the frame is one of the scalars that
  pandas hands to \<^verbatim>\<open>Series.apply\<close>: text, an integer, a boolean, a float or
  \<^verbatim>\<open>None\<close>. A finite float is modelled by its exact value, a rational number;
  the two infinities and NaN are constructors of their own. Text is ASCII text.
\<close>

datatype cell =
    CStr string
  | CInt int
  | CBool bool
  | CFloat rat
  | CNaN
  | CPosInf
  | CNegInf
  | CNone

text \<open>The exceptions that Python's \<^verbatim>\<open>int(x)\<close> raises.\<close>

datatype py_exn = ValueError | OverflowError | TypeError

section \<open>Python built-ins used by the program\<close>

subsection \<open>\<^verbatim>\<open>str\<close> of an integer\<close>

definition digit_char :: "nat \<Rightarrow> char" where
  "digit_char d = char_of (48 + d)"

fun str_nat :: "nat \<Rightarrow> string" where
  "str_nat n = (if n < 10 then [digit_char n] else str_nat (n div 10) @ [digit_char (n mod 10)])"

definition str_int :: "int \<Rightarrow> string" where
  "str_int i = (if i < 0 then CHR ''-'' # str_nat (nat (- i)) else str_nat (nat i))"

subsection \<open>\<^verbatim>\<open>int\<close> of a text\<close>

text \<open>
  \<^verbatim>\<open>int(s)\<close> on ASCII text: white space around the number is skipped, one sign is
  allowed, then decimal digits follow, with single underscores allowed between two
  digits. Anything else is a \<^verbatim>\<open>ValueError\<close>. (The interpreter's configurable limit
  on the number of digits is not part of the model.)
\<close>

definition is_space :: "char \<Rightarrow> bool" where
  "is_space c = ((of_char c :: nat) = 32 \<or> (9 \<le> (of_char c :: nat) \<and> (of_char c :: nat) \<le> 13))"

definition is_digit :: "char \<Rightarrow> bool" where
  "is_digit c = (48 \<le> (of_char c :: nat) \<and> (of_char c :: nat) \<le> 57)"

definition digit_val :: "char \<Rightarrow> nat" where
  "digit_val c = of_char c - 48"

definition strip :: "string \<Rightarrow> string" where
  "strip s = rev (dropWhile is_space (rev (dropWhile is_space s)))"

text \<open>
  The digits of the number, left to right. \<open>prev\<close> tells whether the character
  before was a digit: the text may end only after a digit, and an underscore must stand
  between two digits.
\<close>

fun parse_digits :: "bool \<Rightarrow> nat \<Rightarrow> string \<Rightarrow> nat option" where
  "parse_digits prev acc [] = (if prev then Some acc else None)"
| "parse_digits prev acc (c # cs) =
     (if is_digit c then parse_digits True (acc * 10 + digit_val c) cs
      else if c = CHR ''_'' \<and> prev \<and> (case cs of [] \<Rightarrow> False | d # _ \<Rightarrow> is_digit d)
        then parse_digits False acc cs
      else None)"

definition int_of_text :: "string \<Rightarrow> int option" where
  "int_of_text s =
     (case strip s of
        [] \<Rightarrow> None
      | c # cs \<Rightarrow>
          if c = CHR ''-'' then map_option (\<lambda>n. - int n) (parse_digits False 0 cs)
          else if c = CHR ''+'' then map_option int (parse_digits False 0 cs)
          else map_option int (parse_digits False 0 (c # cs)))"

subsection \<open>\<^verbatim>\<open>int\<close> and \<^verbatim>\<open>str\<close> of a cell\<close>

text \<open>A float is truncated toward zero.\<close>

definition trunc :: "rat \<Rightarrow> int" where
  "trunc q = (if 0 \<le> q then \<lfloor>q\<rfloor> else \<lceil>q\<rceil>)"

fun py_int :: "cell \<Rightarrow> py_exn + int" where
  "py_int (CStr s) = (case int_of_text s of None \<Rightarrow> Inl ValueError | Some i \<Rightarrow> Inr i)"
| "py_int (CInt i) = Inr i"
| "py_int (CBool b) = Inr (if b then 1 else 0)"
| "py_int (CFloat q) = Inr (trunc q)"
| "py_int CNaN = Inl ValueError"
| "py_int CPosInf = Inl OverflowError"
| "py_int CNegInf = Inl OverflowError"
| "py_int CNone = Inl TypeError"

text \<open>
  \<^verbatim>\<open>str(x)\<close>, which \<^verbatim>\<open>astype(str)\<close> applies to every cell. The shortest decimal
  rendering of a finite float is the interpreter's business; it is the parameter
  \<open>float_repr\<close>.
\<close>

fun py_str :: "(rat \<Rightarrow> string) \<Rightarrow> cell \<Rightarrow> string" where
  "py_str float_repr (CStr s) = s"
| "py_str float_repr (CInt i) = str_int i"
| "py_str float_repr (CBool b) = (if b then ''True'' else ''False'')"
| "py_str float_repr (CFloat q) = float_repr q"
| "py_str float_repr CNaN = ''nan''"
| "py_str float_repr CPosInf = ''inf''"
| "py_str float_repr CNegInf = ''-inf''"
| "py_str float_repr CNone = ''None''"

section \<open>The log\<close>

text \<open>
  Every call of \<^verbatim>\<open>logging.error\<close> and \<^verbatim>\<open>logging.info\<close> in the program, with
  the values that its message interpolates.
\<close>

datatype column_kind = JobTitle | Age | City

text \<open>
  What can leave the body of the \<^verbatim>\<open>try\<close> in \<^verbatim>\<open>main\<close> once the input is
  read: the \<^verbatim>\<open>ValueError\<close> raised for a column that is not in the header, and an
  exception that escaped from \<^verbatim>\<open>generalize_age\<close>.
\<close>

datatype run_exn =
    ColumnNotFound column_kind string
  | Escaped py_exn

datatype log_entry =
    ErrInvalidAge cell
  | ErrCityFailed string
  | ErrInputNotFound string
  | ErrValueError run_exn
  | ErrUnexpected run_exn
  | InfoComplete string

section \<open>The three generalizers\<close>

definition JOB_TITLE_MAPPING :: "(string \<times> string) list" where
  "JOB_TITLE_MAPPING =
     [(''Software Engineer'', ''Engineer''),
      (''Data Scientist'', ''Data Analyst''),
      (''Project Manager'', ''Manager''),
      (''Accountant'', ''Finance Professional''),
      (''Teacher'', ''Educator''),
      (''Nurse'', ''Healthcare Professional''),
      (''Doctor'', ''Healthcare Professional''),
      (''Lawyer'', ''Legal Professional''),
      (''Sales Representative'', ''Sales Professional''),
      (''Marketing Manager'', ''Marketing Professional'')]"

definition AGE_RANGES :: "(int \<times> int) list" where
  "AGE_RANGES =
     [(18, 25), (26, 35), (36, 45), (46, 55), (56, 65), (66, 75), (76, 85), (86, 95)]"

definition generalize_job_title :: "string \<Rightarrow> string" where
  "generalize_job_title job_title =
     (case map_of JOB_TITLE_MAPPING job_title of
        Some v \<Rightarrow> v
      | None \<Rightarrow> job_title)"

text \<open>The \<^verbatim>\<open>for\<close> loop of \<^verbatim>\<open>generalize_age\<close>: the first range that holds the age.\<close>

fun scan_ranges :: "(int \<times> int) list \<Rightarrow> int \<Rightarrow> string option" where
  "scan_ranges [] age = None"
| "scan_ranges (age_range # rest) age =
     (if fst age_range \<le> age \<and> age \<le> snd age_range
      then Some (str_int (fst age_range) @ ''-'' @ str_int (snd age_range))
      else scan_ranges rest age)"

text \<open>
  \<^verbatim>\<open>generalize_age\<close> returns its label and what it logged, or the exception that
  leaves it: only \<^verbatim>\<open>ValueError\<close> is caught.
\<close>

definition generalize_age :: "cell \<Rightarrow> py_exn + (string \<times> log_entry list)" where
  "generalize_age age =
     (case py_int age of
        Inl ValueError \<Rightarrow> Inr (''Unknown'', [ErrInvalidAge age])
      | Inl e \<Rightarrow> Inl e
      | Inr a \<Rightarrow>
          if \<not> (0 \<le> a \<and> a \<le> 120) then Inr (''Unknown'', [])
          else (case scan_ranges AGE_RANGES a of
                  Some label \<Rightarrow> Inr (label, [])
                | None \<Rightarrow> Inr (''Unknown'', [])))"

text \<open>
  \<^verbatim>\<open>generalize_city_to_state\<close> asks Faker for a state name and never looks at the
  city. Faker is a library: \<open>fake_state\<close> is its generator, a step on the state
  \<open>'g\<close> of the randomness source that yields a name or \<open>None\<close> when the call raises.
  Building the \<^verbatim>\<open>Faker()\<close> object itself is taken to succeed.
\<close>

definition generalize_city_to_state ::
  "('g \<Rightarrow> string option \<times> 'g) \<Rightarrow> string \<Rightarrow> 'g \<Rightarrow> (cell \<times> log_entry list) \<times> 'g" where
  "generalize_city_to_state fake_state city g =
     (case fake_state g of
        (Some state, g') \<Rightarrow> ((CStr state, []), g')
      | (None, g') \<Rightarrow> ((CNone, [ErrCityFailed city]), g'))"

text \<open>A generator for examples: it reads its outcomes off a list.\<close>

fun tape :: "string option list \<Rightarrow> string option \<times> string option list" where
  "tape [] = (None, [])"
| "tape (x # xs) = (x, xs)"

section \<open>The data frame\<close>

text \<open>
  A frame is the list of its columns, in header order, each with its values from the
  first row to the last. The column names that \<^verbatim>\<open>read_csv\<close> produces are
  distinct, and all columns have one length; the number of rows is read off the first
  column. A column is looked up by name with \<open>map_of\<close>.
\<close>

type_synonym frame = "(string \<times> cell list) list"

definition columns :: "frame \<Rightarrow> string list" where
  "columns df = map fst df"

definition nrows :: "frame \<Rightarrow> nat" where
  "nrows df = (case df of [] \<Rightarrow> 0 | col # _ \<Rightarrow> length (snd col))"

text \<open>Row \<open>i\<close> of the frame, and all its rows in order.\<close>

definition row_at :: "frame \<Rightarrow> nat \<Rightarrow> (string \<times> cell) list" where
  "row_at df i = map (\<lambda>col. (fst col, snd col ! i)) df"

definition rows_of :: "frame \<Rightarrow> (string \<times> cell) list list" where
  "rows_of df = map (row_at df) [0 ..< nrows df]"

text \<open>
  \<^verbatim>\<open>df.head(n)\<close> is \<^verbatim>\<open>df.iloc[:n]\<close>: the first \<open>n\<close> rows, and for a negative
  \<open>n\<close> all rows but the last \<open>-n\<close>.
\<close>

definition head_count :: "int \<Rightarrow> nat \<Rightarrow> nat" where
  "head_count n len = (if 0 \<le> n then min (nat n) len else len - nat (- n))"

definition df_head :: "int \<Rightarrow> frame \<Rightarrow> frame" where
  "df_head n df = map (\<lambda>col. (fst col, take (head_count n (nrows df)) (snd col))) df"

text \<open>\<^verbatim>\<open>df[c] = values\<close> for a column \<open>c\<close> of the frame.\<close>

definition set_column :: "string \<Rightarrow> cell list \<Rightarrow> frame \<Rightarrow> frame" where
  "set_column c values df = map (\<lambda>col. if fst col = c then (c, values) else col) df"

section \<open>The run\<close>

record args =
  input_file :: string
  output_file :: string
  job_title_column :: "string option"
  age_column :: "string option"
  city_column :: "string option"
  num_rows :: "int option"

text \<open>
  \<^verbatim>\<open>Series.apply\<close> calls the function on the cells from the first to the last.
  An exception of \<^verbatim>\<open>generalize_age\<close> ends the loop; what was logged stays logged.
\<close>

fun apply_age :: "cell list \<Rightarrow> (py_exn + cell list) \<times> log_entry list" where
  "apply_age [] = (Inr [], [])"
| "apply_age (age # rest) =
     (case generalize_age age of
        Inl e \<Rightarrow> (Inl e, [])
      | Inr (label, l1) \<Rightarrow>
          (case apply_age rest of
             (Inl e, l2) \<Rightarrow> (Inl e, l1 @ l2)
           | (Inr out, l2) \<Rightarrow> (Inr (CStr label # out), l1 @ l2)))"

fun apply_city ::
  "('g \<Rightarrow> string option \<times> 'g) \<Rightarrow> string list \<Rightarrow> 'g \<Rightarrow> (cell list \<times> log_entry list) \<times> 'g" where
  "apply_city fake_state [] g = (([], []), g)"
| "apply_city fake_state (city # rest) g =
     (case generalize_city_to_state fake_state city g of
        ((v, l1), g1) \<Rightarrow>
          (case apply_city fake_state rest g1 of
             ((vs, l2), g2) \<Rightarrow> ((v # vs, l1 @ l2), g2)))"

text \<open>
  The three optional stages of \<^verbatim>\<open>main\<close> (lines 119 to 134). An option that is
  \<^verbatim>\<open>None\<close> or the empty text is false in Python, and its stage is skipped.
\<close>

definition job_title_stage :: "(rat \<Rightarrow> string) \<Rightarrow> string option \<Rightarrow> frame \<Rightarrow> run_exn + frame" where
  "job_title_stage float_repr opt df =
     (case opt of
        None \<Rightarrow> Inr df
      | Some c \<Rightarrow>
          if c = [] then Inr df
          else (case map_of df c of
                  None \<Rightarrow> Inl (ColumnNotFound JobTitle c)
                | Some vs \<Rightarrow>
                    Inr (set_column c
                          (map (\<lambda>v. CStr (generalize_job_title (py_str float_repr v))) vs) df)))"

definition age_stage :: "string option \<Rightarrow> frame \<Rightarrow> (run_exn + frame) \<times> log_entry list" where
  "age_stage opt df =
     (case opt of
        None \<Rightarrow> (Inr df, [])
      | Some c \<Rightarrow>
          if c = [] then (Inr df, [])
          else (case map_of df c of
                  None \<Rightarrow> (Inl (ColumnNotFound Age c), [])
                | Some vs \<Rightarrow>
                    (case apply_age vs of
                       (Inl e, l) \<Rightarrow> (Inl (Escaped e), l)
                     | (Inr out, l) \<Rightarrow> (Inr (set_column c out df), l))))"

definition city_stage ::
  "(rat \<Rightarrow> string) \<Rightarrow> ('g \<Rightarrow> string option \<times> 'g) \<Rightarrow> string option \<Rightarrow> frame \<Rightarrow> 'g
     \<Rightarrow> ((run_exn + frame) \<times> log_entry list) \<times> 'g" where
  "city_stage float_repr fake_state opt df g =
     (case opt of
        None \<Rightarrow> ((Inr df, []), g)
      | Some c \<Rightarrow>
          if c = [] then ((Inr df, []), g)
          else (case map_of df c of
                  None \<Rightarrow> ((Inl (ColumnNotFound City c), []), g)
                | Some vs \<Rightarrow>
                    (case apply_city fake_state (map (py_str float_repr) vs) g of
                       ((out, l), g') \<Rightarrow> ((Inr (set_column c out df), l), g'))))"

text \<open>
  The body of the \<^verbatim>\<open>try\<close> between reading and writing (lines 114 to 134): the
  row limit, then the three stages in their order. The first exception ends it.
\<close>

definition transform ::
  "(rat \<Rightarrow> string) \<Rightarrow> ('g \<Rightarrow> string option \<times> 'g) \<Rightarrow> args \<Rightarrow> frame \<Rightarrow> 'g
     \<Rightarrow> ((run_exn + frame) \<times> log_entry list) \<times> 'g" where
  "transform float_repr fake_state a df g =
     (let df1 = (case num_rows a of None \<Rightarrow> df | Some n \<Rightarrow> df_head n df) in
      case job_title_stage float_repr (job_title_column a) df1 of
        Inl e \<Rightarrow> ((Inl e, []), g)
      | Inr df2 \<Rightarrow>
          (case age_stage (age_column a) df2 of
             (Inl e, l) \<Rightarrow> ((Inl e, l), g)
           | (Inr df3, l) \<Rightarrow>
               (case city_stage float_repr fake_state (city_column a) df3 g of
                  ((r, l'), g') \<Rightarrow> ((r, l @ l'), g'))))"

text \<open>
  The files are a map from paths to parsed tables; reading a path that is not there is
  \<^verbatim>\<open>FileNotFoundError\<close>, and writing the output is taken to succeed. \<^verbatim>\<open>main\<close>
  catches every exception, logs it and returns, and nothing in the program calls
  \<^verbatim>\<open>sys.exit\<close>: the interpreter ends with status 0 on every path.
\<close>

record 'g outcome =
  files_after :: "string \<Rightarrow> frame option"
  logged :: "log_entry list"
  rng_after :: 'g
  exit_status :: nat

text \<open>The \<^verbatim>\<open>except\<close> clauses: \<^verbatim>\<open>ValueError\<close> first, then any \<^verbatim>\<open>Exception\<close>.\<close>

fun handler :: "run_exn \<Rightarrow> log_entry" where
  "handler (ColumnNotFound k c) = ErrValueError (ColumnNotFound k c)"
| "handler (Escaped ValueError) = ErrValueError (Escaped ValueError)"
| "handler (Escaped e) = ErrUnexpected (Escaped e)"

definition main ::
  "(rat \<Rightarrow> string) \<Rightarrow> ('g \<Rightarrow> string option \<times> 'g) \<Rightarrow> args \<Rightarrow> (string \<Rightarrow> frame option) \<Rightarrow> 'g
     \<Rightarrow> 'g outcome" where
  "main float_repr fake_state a files g =
     (case files (input_file a) of
        None \<Rightarrow>
          \<lparr>files_after = files, logged = [ErrInputNotFound (input_file a)],
           rng_after = g, exit_status = 0\<rparr>
      | Some df \<Rightarrow>
          (case transform float_repr fake_state a df g of
             ((Inl e, l), g') \<Rightarrow>
               \<lparr>files_after = files, logged = l @ [handler e],
                rng_after = g', exit_status = 0\<rparr>
           | ((Inr out, l), g') \<Rightarrow>
               \<lparr>files_after = files(output_file a \<mapsto> out),
                logged = l @ [InfoComplete (output_file a)],
                rng_after = g', exit_status = 0\<rparr>))"


section \<open>Example inputs\<close>

text \<open>
  The arguments as \<^verbatim>\<open>setup_argparse\<close> leaves them when only the two paths are
  given, and a small table with the three kinds of column.
\<close>

definition defaults :: "string \<Rightarrow> string \<Rightarrow> args" where
  "defaults inp out =
     \<lparr>input_file = inp, output_file = out, job_title_column = None, age_column = None,
      city_column = None, num_rows = None\<rparr>"

definition people :: frame where
  "people =
     [(''Job Title'', [CStr ''Software Engineer'', CStr ''Astronaut'', CStr ''Nurse'']),
      (''Age'', [CInt 30, CInt 150, CInt 64]),
      (''City'', [CStr ''Boston'', CStr ''Austin'', CStr ''Reno''])]"

section \<open>Properties of the age generalizer\<close>

lemma str_int_bounds:
  "str_int 18 = ''18''" "str_int 25 = ''25''" "str_int 26 = ''26''" "str_int 35 = ''35''"
  "str_int 36 = ''36''" "str_int 45 = ''45''" "str_int 46 = ''46''" "str_int 55 = ''55''"
  "str_int 56 = ''56''" "str_int 65 = ''65''" "str_int 66 = ''66''" "str_int 75 = ''75''"
  "str_int 76 = ''76''" "str_int 85 = ''85''" "str_int 86 = ''86''" "str_int 95 = ''95''"
  by code_simp+

lemma scan_ranges_AGE_RANGES:
  "scan_ranges AGE_RANGES a =
     (if 18 \<le> a \<and> a \<le> 25 then Some ''18-25''
      else if 26 \<le> a \<and> a \<le> 35 then Some ''26-35''
      else if 36 \<le> a \<and> a \<le> 45 then Some ''36-45''
      else if 46 \<le> a \<and> a \<le> 55 then Some ''46-55''
      else if 56 \<le> a \<and> a \<le> 65 then Some ''56-65''
      else if 66 \<le> a \<and> a \<le> 75 then Some ''66-75''
      else if 76 \<le> a \<and> a \<le> 85 then Some ''76-85''
      else if 86 \<le> a \<and> a \<le> 95 then Some ''86-95''
      else None)"
  by (simp add: AGE_RANGES_def str_int_bounds)

lemma scan_ranges_find:
  "scan_ranges rs a =
     map_option (\<lambda>r. str_int (fst r) @ ''-'' @ str_int (snd r))
       (List.find (\<lambda>r. fst r \<le> a \<and> a \<le> snd r) rs)"
  by (induction rs) simp_all

lemma find_AGE_RANGES:
  "List.find (\<lambda>r. fst r \<le> a \<and> a \<le> snd r) AGE_RANGES =
     (if 18 \<le> a \<and> a \<le> 25 then Some (18, 25)
      else if 26 \<le> a \<and> a \<le> 35 then Some (26, 35)
      else if 36 \<le> a \<and> a \<le> 45 then Some (36, 45)
      else if 46 \<le> a \<and> a \<le> 55 then Some (46, 55)
      else if 56 \<le> a \<and> a \<le> 65 then Some (56, 65)
      else if 66 \<le> a \<and> a \<le> 75 then Some (66, 75)
      else if 76 \<le> a \<and> a \<le> 85 then Some (76, 85)
      else if 86 \<le> a \<and> a \<le> 95 then Some (86, 95)
      else None)"
  by (simp add: AGE_RANGES_def)

lemma band_unique:
  assumes "r \<in> set AGE_RANGES" "r' \<in> set AGE_RANGES"
    and "fst r \<le> a" "a \<le> snd r" "fst r' \<le> a" "a \<le> snd r'"
  shows "r = r'"
  using assms unfolding AGE_RANGES_def by auto

text \<open>
  Claim C1. Every input that converts to an integer \<open>a\<close> with \<open>18 \<le> a \<le> 95\<close> lies
  in a band of \<open>AGE_RANGES\<close>; the scan finds it first, no other band holds \<open>a\<close>, and
  \<open>generalize_age\<close> returns its label \<^verbatim>\<open>low-high\<close> without logging. The text
  \<^verbatim>\<open>30\<close> gets the label \<^verbatim>\<open>26-35\<close>.
\<close>

theorem bucket_age_in_band:
  assumes "py_int raw = Inr a" and "18 \<le> a" and "a \<le> 95"
  shows "(\<exists>lo hi. List.find (\<lambda>r. fst r \<le> a \<and> a \<le> snd r) AGE_RANGES = Some (lo, hi)
           \<and> lo \<le> a \<and> a \<le> hi
           \<and> (\<forall>r \<in> set AGE_RANGES. fst r \<le> a \<and> a \<le> snd r \<longrightarrow> r = (lo, hi))
           \<and> generalize_age raw = Inr (str_int lo @ ''-'' @ str_int hi, []))
         \<and> generalize_age (CStr ''30'') = Inr (''26-35'', [])"
proof -
  have thirty: "generalize_age (CStr ''30'') = Inr (''26-35'', [])"
    by code_simp
  obtain r where found: "List.find (\<lambda>r. fst r \<le> a \<and> a \<le> snd r) AGE_RANGES = Some r"
    using assms(2,3) by (cases "List.find (\<lambda>r. fst r \<le> a \<and> a \<le> snd r) AGE_RANGES")
      (auto simp: find_AGE_RANGES split: if_splits)
  then have mem: "r \<in> set AGE_RANGES" and inside: "fst r \<le> a" "a \<le> snd r"
    by (auto simp: find_Some_iff)
  have uniq: "\<forall>r' \<in> set AGE_RANGES. fst r' \<le> a \<and> a \<le> snd r' \<longrightarrow> r' = (fst r, snd r)"
    using band_unique [OF _ mem _ _ inside] by auto
  have "scan_ranges AGE_RANGES a = Some (str_int (fst r) @ ''-'' @ str_int (snd r))"
    by (simp add: scan_ranges_find found)
  then have "generalize_age raw = Inr (str_int (fst r) @ ''-'' @ str_int (snd r), [])"
    using assms by (simp add: generalize_age_def)
  with found inside uniq have "\<exists>lo hi.
      List.find (\<lambda>r. fst r \<le> a \<and> a \<le> snd r) AGE_RANGES = Some (lo, hi)
      \<and> lo \<le> a \<and> a \<le> hi
      \<and> (\<forall>r \<in> set AGE_RANGES. fst r \<le> a \<and> a \<le> snd r \<longrightarrow> r = (lo, hi))
      \<and> generalize_age raw = Inr (str_int lo @ ''-'' @ str_int hi, [])"
    by (intro exI [of _ "fst r"] exI [of _ "snd r"]) simp
  with thirty show ?thesis by simp
qed

theorem bucket_age_in_band_witness:
  "py_int (CStr '' 95 '') = Inr 95 \<and> generalize_age (CStr '' 95 '') = Inr (''86-95'', [])"
proof -
  have conv: "py_int (CStr '' 95 '') = Inr 95" by code_simp
  from bucket_age_in_band [OF conv] obtain lo hi
    where "List.find (\<lambda>r. fst r \<le> (95::int) \<and> 95 \<le> snd r) AGE_RANGES = Some (lo, hi)"
      and res: "generalize_age (CStr '' 95 '') = Inr (str_int lo @ ''-'' @ str_int hi, [])"
    by auto
  then have "lo = 86" "hi = 95" by (simp_all add: find_AGE_RANGES)
  with res conv show ?thesis by (simp add: str_int_bounds)
qed

text \<open>
  Where \<open>generalize_age\<close> answers \<^verbatim>\<open>Unknown\<close>: a failed conversion that raises
  \<^verbatim>\<open>ValueError\<close> (with a log entry), an age outside \<open>[0, 120]\<close>, and an age
  below 18 or above 95.
\<close>

lemma scan_ranges_below: "a < 18 \<Longrightarrow> scan_ranges AGE_RANGES a = None"
  by (simp add: scan_ranges_AGE_RANGES)

lemma scan_ranges_above: "95 < a \<Longrightarrow> scan_ranges AGE_RANGES a = None"
  by (simp add: scan_ranges_AGE_RANGES)

lemma scan_ranges_outside:
  assumes "a < 18 \<or> 95 < a"
  shows "scan_ranges AGE_RANGES a = None"
  using assms scan_ranges_below scan_ranges_above by blast

lemma generalize_age_invalid:
  "py_int raw = Inl ValueError \<Longrightarrow> generalize_age raw = Inr (''Unknown'', [ErrInvalidAge raw])"
  by (simp add: generalize_age_def)

lemma generalize_age_out_of_range:
  "py_int raw = Inr a \<Longrightarrow> a < 0 \<or> 120 < a \<Longrightarrow> generalize_age raw = Inr (''Unknown'', [])"
  by (simp add: generalize_age_def not_le [symmetric])

lemma generalize_age_gap:
  assumes "py_int raw = Inr a" and "a < 18 \<or> 95 < a"
  shows "generalize_age raw = Inr (''Unknown'', [])"
  using assms(1) scan_ranges_outside [OF assms(2)] by (simp add: generalize_age_def)

text \<open>
  Claim C2. The claim says that no input makes \<open>generalize_age\<close> or the run abort.
  The float infinity does: \<^verbatim>\<open>int\<close> raises \<^verbatim>\<open>OverflowError\<close>, which the
  \<^verbatim>\<open>except ValueError\<close> of \<open>generalize_age\<close> does not catch. The exception
  leaves the function, ends the run of \<open>main\<close> on a table whose age column holds
  \<^verbatim>\<open>30.0\<close> and \<^verbatim>\<open>inf\<close>, and no output file is written.
\<close>

theorem generalize_age_infinity_escapes:
  "generalize_age CPosInf = Inl OverflowError
   \<and> files_after (main float_repr fake_state
        \<lparr>input_file = ''in.csv'', output_file = ''out.csv'', job_title_column = None,
         age_column = Some ''Age'', city_column = None, num_rows = None\<rparr>
        [''in.csv'' \<mapsto> [(''Age'', [CFloat 30, CPosInf])]] g) ''out.csv'' = None
   \<and> logged (main float_repr fake_state
        \<lparr>input_file = ''in.csv'', output_file = ''out.csv'', job_title_column = None,
         age_column = Some ''Age'', city_column = None, num_rows = None\<rparr>
        [''in.csv'' \<mapsto> [(''Age'', [CFloat 30, CPosInf])]] g) = [ErrUnexpected (Escaped OverflowError)]"
proof -
  have inf: "generalize_age CPosInf = Inl OverflowError"
    by (simp add: generalize_age_def)
  have thirty: "generalize_age (CFloat 30) = Inr (''26-35'', [])"
    by (simp add: generalize_age_def trunc_def scan_ranges_AGE_RANGES)
  have stage: "age_stage (Some ''Age'') [(''Age'', [CFloat 30, CPosInf])]
      = (Inl (Escaped OverflowError), [])"
    by (simp add: age_stage_def inf thirty)
  have run: "transform float_repr fake_state
        \<lparr>input_file = ''in.csv'', output_file = ''out.csv'', job_title_column = None,
         age_column = Some ''Age'', city_column = None, num_rows = None\<rparr>
        [(''Age'', [CFloat 30, CPosInf])] g = ((Inl (Escaped OverflowError), []), g)"
    by (simp add: transform_def job_title_stage_def stage)
  show ?thesis
    by (simp add: inf main_def run)
qed

section \<open>Properties of the job title and city generalizers\<close>

lemma distinct_job_titles: "distinct (map fst JOB_TITLE_MAPPING)"
  by (simp add: JOB_TITLE_MAPPING_def)

text \<open>
  Claim C7. \<open>generalize_job_title\<close> returns the mapped value for every key of
  \<open>JOB_TITLE_MAPPING\<close> and returns its argument unchanged for every text that is not
  a key. It is a total function of its argument alone.
\<close>

theorem map_category_identity_law:
  "((key, v) \<in> set JOB_TITLE_MAPPING \<longrightarrow> generalize_job_title key = v)
   \<and> (key \<notin> fst ` set JOB_TITLE_MAPPING \<longrightarrow> generalize_job_title key = key)"
proof (intro conjI impI)
  assume "(key, v) \<in> set JOB_TITLE_MAPPING"
  then have "map_of JOB_TITLE_MAPPING key = Some v"
    using distinct_job_titles by simp
  then show "generalize_job_title key = v"
    by (simp add: generalize_job_title_def)
next
  assume "key \<notin> fst ` set JOB_TITLE_MAPPING"
  then have "map_of JOB_TITLE_MAPPING key = None"
    by (simp add: map_of_eq_None_iff)
  then show "generalize_job_title key = key"
    by (simp add: generalize_job_title_def)
qed

theorem map_category_identity_law_witness:
  "generalize_job_title ''Software Engineer'' = ''Engineer''
   \<and> generalize_job_title ''Astronaut'' = ''Astronaut''"
proof -
  have "(''Software Engineer'', ''Engineer'') \<in> set JOB_TITLE_MAPPING"
    by (simp add: JOB_TITLE_MAPPING_def)
  moreover have "''Astronaut'' \<notin> fst ` set JOB_TITLE_MAPPING"
    by (simp add: JOB_TITLE_MAPPING_def)
  ultimately show ?thesis
    using map_category_identity_law [of "''Software Engineer''" "''Engineer''"]
      map_category_identity_law [of "''Astronaut''" "''''"]
    by simp
qed

section \<open>Floats and texts as ages\<close>

lemma trunc_toward_zero:
  "\<bar>of_int (trunc q)\<bar> \<le> \<bar>q\<bar> \<and> \<bar>q - of_int (trunc q)\<bar> < 1"
proof (cases "0 \<le> q")
  case True
  then have eq: "trunc q = \<lfloor>q\<rfloor>" by (simp add: trunc_def)
  have a: "of_int \<lfloor>q\<rfloor> \<le> q" by simp
  have b: "q < of_int \<lfloor>q\<rfloor> + 1" using floor_correct [of q] by simp
  have c: "(0::rat) \<le> of_int \<lfloor>q\<rfloor>" using True by simp
  from a b c True show ?thesis unfolding eq by linarith
next
  case False
  then have eq: "trunc q = \<lceil>q\<rceil>" by (simp add: trunc_def)
  have a: "q \<le> of_int \<lceil>q\<rceil>" by simp
  have b: "of_int \<lceil>q\<rceil> < q + 1" using ceiling_correct [of q] by simp
  have c: "of_int \<lceil>q\<rceil> \<le> (0::rat)" using False by (simp add: ceiling_le_zero)
  from a b c False show ?thesis unfolding eq by linarith
qed

text \<open>
  Claim C10. A float age is truncated toward zero before it is bucketed: it gets the
  label of the integer \<open>trunc q\<close>, which is no larger in magnitude than \<open>q\<close> and less
  than 1 away from it. So the float \<^verbatim>\<open>25.9\<close> gets \<^verbatim>\<open>18-25\<close>, while the text
  \<^verbatim>\<open>25.9\<close> does not convert and gets \<^verbatim>\<open>Unknown\<close> with a log entry.
\<close>

theorem float_and_text_ages_differ:
  "generalize_age (CFloat q) = generalize_age (CInt (trunc q))
   \<and> \<bar>of_int (trunc q)\<bar> \<le> \<bar>q\<bar> \<and> \<bar>q - of_int (trunc q)\<bar> < 1
   \<and> generalize_age (CFloat (259 / 10)) = Inr (''18-25'', [])
   \<and> generalize_age (CStr ''25.9'') = Inr (''Unknown'', [ErrInvalidAge (CStr ''25.9'')])"
proof -
  have "generalize_age (CFloat q) = generalize_age (CInt (trunc q))"
    by (simp add: generalize_age_def)
  moreover have "generalize_age (CFloat (259 / 10)) = Inr (''18-25'', [])"
    by code_simp
  moreover have "generalize_age (CStr ''25.9'') = Inr (''Unknown'', [ErrInvalidAge (CStr ''25.9'')])"
    by code_simp
  ultimately show ?thesis
    using trunc_toward_zero [of q] by simp
qed

text \<open>
  Claim C8. For one state of the randomness source, \<open>generalize_city_to_state\<close>
  returns the same value and leaves the source in the same state whatever the city is.
  When the generator yields a name, that name is returned and nothing is logged; when
  the generator fails, the result is \<^verbatim>\<open>None\<close> and one error naming the city is
  logged.
\<close>

theorem resolve_region_ignores_city:
  "fst (fst (generalize_city_to_state fake_state city1 g))
     = fst (fst (generalize_city_to_state fake_state city2 g))
   \<and> snd (generalize_city_to_state fake_state city1 g)
     = snd (generalize_city_to_state fake_state city2 g)
   \<and> (\<forall>state. fst (fake_state g) = Some state \<longrightarrow>
        generalize_city_to_state fake_state city1 g = ((CStr state, []), snd (fake_state g)))
   \<and> (fst (fake_state g) = None \<longrightarrow>
        generalize_city_to_state fake_state city1 g
          = ((CNone, [ErrCityFailed city1]), snd (fake_state g)))"
  by (cases "fake_state g") (auto simp: generalize_city_to_state_def split: option.splits)

theorem resolve_region_ignores_city_witness:
  "generalize_city_to_state tape ''Boston'' [Some ''Ohio'', None] = ((CStr ''Ohio'', []), [None])
   \<and> generalize_city_to_state tape ''Boston'' [None, Some ''Ohio'']
       = ((CNone, [ErrCityFailed ''Boston'']), [Some ''Ohio''])"
  using resolve_region_ignores_city
      [where fake_state = tape and g = "[Some ''Ohio'', None]" and ?city1.0 = "''Boston''"
         and ?city2.0 = "''Austin''"]
    resolve_region_ignores_city
      [where fake_state = tape and g = "[None, Some ''Ohio'']" and ?city1.0 = "''Boston''"
         and ?city2.0 = "''Austin''"]
  by simp

section \<open>Properties of the data frame operations\<close>

lemma columns_set_column: "columns (set_column c vs df) = columns df"
  by (induction df) (auto simp: columns_def set_column_def)

lemma map_of_set_column_other:
  "c' \<noteq> c \<Longrightarrow> map_of (set_column c vs df) c' = map_of df c'"
  by (induction df) (auto simp: set_column_def)

lemma map_of_set_column_same:
  "map_of df c = Some ws \<Longrightarrow> map_of (set_column c vs df) c = Some vs"
  by (induction df) (auto simp: set_column_def split: if_splits)



lemma columns_df_head: "columns (df_head n df) = columns df"
  by (simp add: columns_def df_head_def comp_def)

lemma nrows_df_head: "nrows (df_head n df) = head_count n (nrows df)"
  by (cases df) (auto simp: nrows_def df_head_def head_count_def)

lemma row_at_df_head:
  "i < head_count n (nrows df) \<Longrightarrow> row_at (df_head n df) i = row_at df i"
  by (simp add: row_at_def df_head_def comp_def)

lemma head_count_le: "head_count n len \<le> len"
  by (simp add: head_count_def)

lemma rows_of_df_head:
  "rows_of (df_head n df) = take (head_count n (nrows df)) (rows_of df)"
proof -
  let ?k = "head_count n (nrows df)"
  have "rows_of (df_head n df) = map (row_at (df_head n df)) [0 ..< ?k]"
    by (simp add: rows_of_def nrows_df_head)
  also have "\<dots> = map (row_at df) [0 ..< ?k]"
    by (simp add: row_at_df_head)
  also have "\<dots> = take ?k (rows_of df)"
    using head_count_le [of n "nrows df"] by (simp add: rows_of_def take_map min_def)
  finally show ?thesis .
qed

lemma length_rows_of: "length (rows_of df) = nrows df"
  by (simp add: rows_of_def)

lemma length_apply_age:
  "apply_age vs = (Inr out, l) \<Longrightarrow> length out = length vs"
  by (induction vs arbitrary: out l) (auto split: sum.splits prod.splits)

lemma length_apply_city:
  "apply_city fake_state cs g = ((out, l), g') \<Longrightarrow> length out = length cs"
  by (induction cs arbitrary: g out l g') (auto split: prod.splits)

lemma nrows_set_column:
  "map_of df c = Some ws \<Longrightarrow> length vs = length ws \<Longrightarrow> nrows (set_column c vs df) = nrows df"
  by (cases df) (auto simp: nrows_def set_column_def split: if_splits)

lemma job_title_stage_frame:
  assumes "job_title_stage float_repr opt df = Inr out"
  shows "columns out = columns df \<and> nrows out = nrows df
    \<and> (\<forall>c'. Some c' \<noteq> opt \<longrightarrow> map_of out c' = map_of df c')"
  using assms
  by (auto simp: job_title_stage_def columns_set_column map_of_set_column_other nrows_set_column
      split: option.splits if_splits)

lemma age_stage_frame:
  assumes "age_stage opt df = (Inr out, l)"
  shows "columns out = columns df \<and> nrows out = nrows df
    \<and> (\<forall>c'. Some c' \<noteq> opt \<longrightarrow> map_of out c' = map_of df c')"
  using assms
  by (auto simp: age_stage_def columns_set_column map_of_set_column_other nrows_set_column
      length_apply_age split: option.splits if_splits prod.splits sum.splits)

lemma city_stage_frame:
  assumes "city_stage float_repr fake_state opt df g = ((Inr out, l), g')"
  shows "columns out = columns df \<and> nrows out = nrows df
    \<and> (\<forall>c'. Some c' \<noteq> opt \<longrightarrow> map_of out c' = map_of df c')"
  using assms
  by (auto simp: city_stage_def columns_set_column map_of_set_column_other nrows_set_column
      dest!: length_apply_city split: option.splits if_splits prod.splits)





lemma city_stage_Inl:
  "city_stage float_repr fake_state opt df g = ((Inl e, l), g') \<Longrightarrow>
     \<exists>c. opt = Some c \<and> c \<noteq> [] \<and> c \<notin> set (columns df) \<and> e = ColumnNotFound City c"
  by (auto simp: city_stage_def columns_def map_of_eq_None_iff
      split: option.splits if_splits prod.splits)


section \<open>Properties of the transform\<close>

lemma transform_Inr:
  assumes "transform float_repr fake_state a df g = ((Inr out, l), g')"
  shows "\<exists>df2 df3 l1 l2.
      job_title_stage float_repr (job_title_column a)
        (case num_rows a of None \<Rightarrow> df | Some n \<Rightarrow> df_head n df) = Inr df2
      \<and> age_stage (age_column a) df2 = (Inr df3, l1)
      \<and> city_stage float_repr fake_state (city_column a) df3 g = ((Inr out, l2), g')
      \<and> l = l1 @ l2"
  using assms by (auto simp: transform_def Let_def split: sum.splits prod.splits)

text \<open>
  Claim C6. When the transform succeeds, the output has the columns of the input, in the
  same order, and every column that no option names holds exactly the cells of that
  column in the input (after the row limit, when one is given), in the same row order.
\<close>

theorem transform_frame:
  assumes "transform float_repr fake_state a df g = ((Inr out, l), g')"
  shows "columns out = columns df
    \<and> nrows out = nrows (case num_rows a of None \<Rightarrow> df | Some n \<Rightarrow> df_head n df)
    \<and> (\<forall>c. Some c \<notin> {job_title_column a, age_column a, city_column a} \<longrightarrow>
         map_of out c = map_of (case num_rows a of None \<Rightarrow> df | Some n \<Rightarrow> df_head n df) c)"
proof -
  let ?df1 = "case num_rows a of None \<Rightarrow> df | Some n \<Rightarrow> df_head n df"
  from transform_Inr [OF assms] obtain df2 df3 l1 l2
    where j: "job_title_stage float_repr (job_title_column a) ?df1 = Inr df2"
      and g: "age_stage (age_column a) df2 = (Inr df3, l1)"
      and c: "city_stage float_repr fake_state (city_column a) df3 g = ((Inr out, l2), g')"
    by blast
  have head: "columns ?df1 = columns df"
    by (simp add: columns_df_head split: option.splits)
  note fj = job_title_stage_frame [OF j] and fg = age_stage_frame [OF g]
    and fc = city_stage_frame [OF c]
  have "columns out = columns df"
    using fj fg fc head by simp
  moreover have "nrows out = nrows ?df1"
    using fj fg fc by simp
  moreover have "map_of out c = map_of ?df1 c"
    if "Some c \<notin> {job_title_column a, age_column a, city_column a}" for c
  proof -
    from that have "Some c \<noteq> job_title_column a" "Some c \<noteq> age_column a"
      "Some c \<noteq> city_column a" by auto
    then show ?thesis using fj fg fc by simp
  qed
  ultimately show ?thesis by blast
qed

lemma people_run:
  "transform (\<lambda>q. []) tape
     (defaults ''in.csv'' ''out.csv'' \<lparr>job_title_column := Some ''Job Title'', num_rows := Some 2\<rparr>)
     people []
   = ((Inr [(''Job Title'', [CStr ''Engineer'', CStr ''Astronaut'']),
            (''Age'', [CInt 30, CInt 150]),
            (''City'', [CStr ''Boston'', CStr ''Austin''])], []), [])"
  by code_simp

theorem transform_frame_witness:
  "columns [(''Job Title'', [CStr ''Engineer'', CStr ''Astronaut'']),
            (''Age'', [CInt 30, CInt 150]),
            (''City'', [CStr ''Boston'', CStr ''Austin''])] = columns people
   \<and> map_of [(''Job Title'', [CStr ''Engineer'', CStr ''Astronaut'']),
            (''Age'', [CInt 30, CInt 150]),
            (''City'', [CStr ''Boston'', CStr ''Austin''])] ''Age''
     = map_of (df_head 2 people) ''Age''"
proof -
  let ?a = "defaults ''in.csv'' ''out.csv''
      \<lparr>job_title_column := Some ''Job Title'', num_rows := Some 2\<rparr>"
  let ?out = "[(''Job Title'', [CStr ''Engineer'', CStr ''Astronaut'']),
      (''Age'', [CInt 30, CInt 150]), (''City'', [CStr ''Boston'', CStr ''Austin''])]"
  have unnamed: "Some ''Age'' \<notin> {job_title_column ?a, age_column ?a, city_column ?a}"
    by (simp add: defaults_def)
  from transform_frame [OF people_run]
  have "columns ?out = columns people"
    and "\<forall>c. Some c \<notin> {job_title_column ?a, age_column ?a, city_column ?a} \<longrightarrow>
      map_of ?out c = map_of (case num_rows ?a of None \<Rightarrow> people | Some n \<Rightarrow> df_head n people) c"
    by blast+
  with unnamed have "columns ?out = columns people"
    and "map_of ?out ''Age''
      = map_of (case num_rows ?a of None \<Rightarrow> people | Some n \<Rightarrow> df_head n people) ''Age''"
    by blast+
  then show ?thesis
    by (simp add: defaults_def)
qed

text \<open>
  Claim C3, amended. With a row limit \<open>n\<close>, the rows kept are a prefix of the rows of the
  input, in their order, and the output has that many rows: \<open>min n len\<close> rows for
  \<open>n \<ge> 0\<close> (all of them when \<open>n\<close> is at least the row count), and \<open>len - |n|\<close> rows, or
  none, for a negative \<open>n\<close>. With no column named, the output is that prefix itself.
\<close>

theorem row_limit_prefix:
  assumes "transform float_repr fake_state a df g = ((Inr out, l), g')"
    and "num_rows a = Some n"
  shows "nrows out = head_count n (nrows df)
     \<and> rows_of (df_head n df) = take (head_count n (nrows df)) (rows_of df)
     \<and> (0 \<le> n \<longrightarrow> head_count n (nrows df) = min (nat n) (nrows df))
     \<and> (n < 0 \<longrightarrow> head_count n (nrows df) = nrows df - nat (- n))
     \<and> (int (nrows df) \<le> n \<longrightarrow> rows_of (df_head n df) = rows_of df)
     \<and> (job_title_column a = None \<and> age_column a = None \<and> city_column a = None
          \<longrightarrow> out = df_head n df)"
proof -
  from transform_Inr [OF assms(1)] assms(2) obtain df2 df3 l1 l2
    where j: "job_title_stage float_repr (job_title_column a) (df_head n df) = Inr df2"
      and g: "age_stage (age_column a) df2 = (Inr df3, l1)"
      and c: "city_stage float_repr fake_state (city_column a) df3 g = ((Inr out, l2), g')"
    by auto
  have rows: "nrows out = head_count n (nrows df)"
    using job_title_stage_frame [OF j] age_stage_frame [OF g] city_stage_frame [OF c]
    by (simp add: nrows_df_head)
  have all: "rows_of (df_head n df) = rows_of df" if "int (nrows df) \<le> n"
  proof -
    from that have "head_count n (nrows df) = nrows df"
      by (simp add: head_count_def)
    then show ?thesis
      by (simp add: rows_of_df_head length_rows_of)
  qed
  have plain: "out = df_head n df"
    if "job_title_column a = None \<and> age_column a = None \<and> city_column a = None"
    using that j g c by (simp add: job_title_stage_def age_stage_def city_stage_def)
  from rows all plain show ?thesis
    by (simp add: rows_of_df_head head_count_def)
qed

theorem row_limit_prefix_witness:
  "nrows [(''Job Title'', [CStr ''Engineer'', CStr ''Astronaut'']),
          (''Age'', [CInt 30, CInt 150]),
          (''City'', [CStr ''Boston'', CStr ''Austin''])] = 2
   \<and> rows_of (df_head 2 people) = take 2 (rows_of people)
   \<and> rows_of (df_head 5 people) = rows_of people"
proof -
  have two: "num_rows (defaults ''in.csv'' ''out.csv''
      \<lparr>job_title_column := Some ''Job Title'', num_rows := Some 2\<rparr>) = Some 2"
    by (simp add: defaults_def)
  have len: "nrows people = 3"
    by (simp add: people_def nrows_def)
  have five: "rows_of (df_head 5 people) = take (head_count 5 (nrows people)) (rows_of people)"
    by (simp add: rows_of_df_head)
  show ?thesis
    using row_limit_prefix [OF people_run two] five
    by (simp add: len head_count_def length_rows_of)
qed

theorem row_limit_negative_counterexample:
  "fst (fst (transform (\<lambda>q. []) tape (defaults ''in.csv'' ''out.csv'' \<lparr>num_rows := Some (- 1)\<rparr>)
      people []))
     = Inr [(''Job Title'', [CStr ''Software Engineer'', CStr ''Astronaut'']),
            (''Age'', [CInt 30, CInt 150]),
            (''City'', [CStr ''Boston'', CStr ''Austin''])]
   \<and> int (nrows [(''Job Title'', [CStr ''Software Engineer'', CStr ''Astronaut'']),
            (''Age'', [CInt 30, CInt 150]),
            (''City'', [CStr ''Boston'', CStr ''Austin''])]) \<noteq> min (- 1) (int (nrows people))"
  by code_simp

section \<open>Properties of the run\<close>









text \<open>
  The three stages run in the order job title, age, city, and every cell of the age
  column goes through \<^verbatim>\<open>int\<close> before the city column is looked up. A run in which
  only the city column is absent can therefore end in the age stage, with the
  \<^verbatim>\<open>OverflowError\<close> of an infinite age, logged as an unexpected error.
\<close>

lemma escaped_age_before_missing_city:
  "main (\<lambda>q. []) tape
      (defaults ''in.csv'' ''out.csv'' \<lparr>age_column := Some ''Age'', city_column := Some ''Town''\<rparr>)
      [''in.csv'' \<mapsto> [(''Age'', [CInt 30, CPosInf])]] []
     = \<lparr>files_after = [''in.csv'' \<mapsto> [(''Age'', [CInt 30, CPosInf])]],
        logged = [ErrUnexpected (Escaped OverflowError)], rng_after = [], exit_status = 0\<rparr>"
proof -
  have thirty: "generalize_age (CInt 30) = Inr (''26-35'', [])"
    by (simp add: generalize_age_def scan_ranges_AGE_RANGES)
  have inf: "generalize_age CPosInf = Inl OverflowError"
    by (simp add: generalize_age_def)
  show ?thesis
    by (simp add: main_def transform_def defaults_def job_title_stage_def age_stage_def
        thirty inf)
qed




text \<open>
  Claim C9. The job title stage and the city stage turn every cell of their column into
  its text (\<^verbatim>\<open>astype(str)\<close>) before the generalizer sees it. The job title cell of
  the output is the text that \<open>generalize_job_title\<close> returns for that rendering, so a
  NaN cell becomes the text \<^verbatim>\<open>nan\<close> and the integer 42 becomes the text \<^verbatim>\<open>42\<close>.
\<close>

theorem cells_coerced_to_text:
  assumes "map_of df c = Some vs" and "c \<noteq> []"
  shows "job_title_stage float_repr (Some c) df
      = Inr (set_column c (map (\<lambda>v. CStr (generalize_job_title (py_str float_repr v))) vs) df)
   \<and> city_stage float_repr fake_state (Some c) df g
      = (case apply_city fake_state (map (py_str float_repr) vs) g of
           ((out, l), g') \<Rightarrow> ((Inr (set_column c out df), l), g'))
   \<and> CStr (generalize_job_title (py_str float_repr CNaN)) = CStr ''nan''
   \<and> CStr (generalize_job_title (py_str float_repr (CInt 42))) = CStr ''42''"
proof -
  have nan: "generalize_job_title ''nan'' = ''nan''"
    by code_simp
  have num: "generalize_job_title (str_int 42) = ''42''"
    by code_simp
  show ?thesis
    using assms by (simp add: job_title_stage_def city_stage_def nan num)
qed

theorem cells_coerced_to_text_witness:
  "job_title_stage (\<lambda>q. []) (Some ''Job Title'') [(''Job Title'', [CStr ''Nurse'', CNaN, CInt 42])]
     = Inr [(''Job Title'', [CStr ''Healthcare Professional'', CStr ''nan'', CStr ''42''])]
   \<and> city_stage (\<lambda>q. []) tape (Some ''City'') [(''City'', [CNaN])] [None]
     = ((Inr [(''City'', [CNone])], [ErrCityFailed ''nan'']), [])"
proof -
  have nurse: "generalize_job_title ''Nurse'' = ''Healthcare Professional''"
    by code_simp
  have nan: "generalize_job_title ''nan'' = ''nan''"
    by code_simp
  have num: "generalize_job_title (str_int 42) = ''42''"
    by code_simp
  have find1: "map_of [(''Job Title'', [CStr ''Nurse'', CNaN, CInt 42])] ''Job Title''
      = Some [CStr ''Nurse'', CNaN, CInt 42]"
    by simp
  have find2: "map_of [(''City'', [CNaN])] ''City'' = Some [CNaN]"
    by simp
  show ?thesis
    using cells_coerced_to_text [OF find1, of "\<lambda>q. []" tape "[]"]
      cells_coerced_to_text [OF find2, of "\<lambda>q. []" tape "[None]"]
    by (simp add: set_column_def nurse nan num generalize_city_to_state_def)
qed

section \<open>Transforming twice\<close>

lemma values_not_keys:
  "\<forall>v \<in> snd ` set JOB_TITLE_MAPPING. map_of JOB_TITLE_MAPPING v = None"
  by (simp add: JOB_TITLE_MAPPING_def)

lemma generalize_job_title_idem:
  "generalize_job_title (generalize_job_title s) = generalize_job_title s"
proof (cases "map_of JOB_TITLE_MAPPING s")
  case None
  then show ?thesis by (simp add: generalize_job_title_def)
next
  case (Some v)
  then have "(s, v) \<in> set JOB_TITLE_MAPPING" by (rule map_of_SomeD)
  then have val: "v \<in> snd ` set JOB_TITLE_MAPPING" by force
  have "map_of JOB_TITLE_MAPPING v = None"
    by (rule bspec [OF values_not_keys val])
  with Some show ?thesis by (simp add: generalize_job_title_def)
qed

lemma set_column_twice: "set_column c vs (set_column c ws df) = set_column c vs df"
  by (induction df) (auto simp: set_column_def)

lemma age_stage_skip:
  "opt = None \<or> opt = Some [] \<Longrightarrow> age_stage opt df = (Inr df, [])"
  by (auto simp: age_stage_def)

lemma city_stage_skip:
  "opt = None \<or> opt = Some [] \<Longrightarrow> city_stage float_repr fake_state opt df g = ((Inr df, []), g)"
  by (auto simp: city_stage_def)

lemma df_head_fixed:
  assumes "\<forall>col \<in> set df. length (snd col) \<le> head_count n (nrows df)"
  shows "df_head n df = df"
  unfolding df_head_def using assms by (intro map_idI) (simp add: prod_eq_iff)

lemma df_head_bounded:
  "\<forall>col \<in> set (df_head n df). length (snd col) \<le> head_count n (nrows df)"
  by (auto simp: df_head_def)

lemma job_title_stage_bounded:
  assumes "job_title_stage float_repr opt df = Inr out"
    and "\<forall>col \<in> set df. length (snd col) \<le> k"
  shows "\<forall>col \<in> set out. length (snd col) \<le> k"
proof (cases "opt = None \<or> opt = Some []")
  case True
  with assms show ?thesis by (auto simp: job_title_stage_def)
next
  case False
  then obtain c where c: "opt = Some c" "c \<noteq> []" by (cases opt) auto
  with assms(1) obtain vs where vs: "map_of df c = Some vs"
    and out: "out = set_column c
        (map (\<lambda>v. CStr (generalize_job_title (py_str float_repr v))) vs) df"
    by (auto simp: job_title_stage_def split: option.splits)
  from vs have "(c, vs) \<in> set df" by (rule map_of_SomeD)
  with assms(2) have "length vs \<le> k" by force
  with assms(2) show ?thesis
    unfolding out set_column_def by auto
qed

lemma job_title_stage_idem:
  assumes "job_title_stage float_repr opt df = Inr out"
  shows "job_title_stage float_repr opt out = Inr out"
proof (cases "opt = None \<or> opt = Some []")
  case True
  with assms show ?thesis by (auto simp: job_title_stage_def)
next
  case False
  let ?f = "\<lambda>v. CStr (generalize_job_title (py_str float_repr v))"
  from False obtain c where c: "opt = Some c" "c \<noteq> []" by (cases opt) auto
  with assms obtain vs where vs: "map_of df c = Some vs"
    and out: "out = set_column c (map ?f vs) df"
    by (auto simp: job_title_stage_def split: option.splits)
  have again: "map ?f (map ?f vs) = map ?f vs"
    by (simp add: generalize_job_title_idem)
  have "map_of out c = Some (map ?f vs)"
    unfolding out using vs by (rule map_of_set_column_same)
  then have "job_title_stage float_repr opt out = Inr (set_column c (map ?f (map ?f vs)) out)"
    using c by (simp add: job_title_stage_def)
  also have "\<dots> = Inr out"
    unfolding again unfolding out by (simp add: set_column_twice)
  finally show ?thesis .
qed

text \<open>
  Claim C5, amended. With no age column and no city column named, and a row limit that
  is absent or not negative, transforming the output again with the same options gives
  the same table: the row limit keeps a prefix that is already cut, and no value of
  \<open>JOB_TITLE_MAPPING\<close> is one of its keys. An age column breaks this (a label is not
  an age, so every label becomes \<^verbatim>\<open>Unknown\<close>), a city column draws new names,
  and a negative row limit drops rows again.
\<close>

theorem transform_idempotent_job_titles:
  assumes "transform float_repr fake_state a df g = ((Inr out, l), g')"
    and "age_column a = None \<or> age_column a = Some []"
    and "city_column a = None \<or> city_column a = Some []"
    and "\<forall>n. num_rows a = Some n \<longrightarrow> 0 \<le> n"
  shows "transform float_repr fake_state a out g' = ((Inr out, l), g')"
proof -
  let ?df1 = "case num_rows a of None \<Rightarrow> df | Some n \<Rightarrow> df_head n df"
  let ?out1 = "case num_rows a of None \<Rightarrow> out | Some n \<Rightarrow> df_head n out"
  have shape: "transform float_repr fake_state a x h =
      (case job_title_stage float_repr (job_title_column a)
              (case num_rows a of None \<Rightarrow> x | Some n \<Rightarrow> df_head n x) of
         Inl e \<Rightarrow> ((Inl e, []), h) | Inr y \<Rightarrow> ((Inr y, []), h))" for x h
    by (simp add: transform_def age_stage_skip [OF assms(2)] city_stage_skip [OF assms(3)]
        split: sum.splits)
  from assms(1) have job: "job_title_stage float_repr (job_title_column a) ?df1 = Inr out"
    and l: "l = []" and g': "g' = g"
    by (auto simp: shape split: sum.splits)
  have fixed: "?out1 = out"
  proof (cases "num_rows a")
    case None
    then show ?thesis by simp
  next
    case (Some n)
    with assms(4) have n: "0 \<le> n" by simp
    let ?k = "head_count n (nrows df)"
    from job Some have job': "job_title_stage float_repr (job_title_column a) (df_head n df) = Inr out"
      by simp
    have rows: "nrows out = ?k"
      using job_title_stage_frame [OF job'] by (simp add: nrows_df_head)
    have bound: "\<forall>col \<in> set out. length (snd col) \<le> ?k"
      using job_title_stage_bounded [OF job' df_head_bounded] .
    have "head_count n ?k = ?k"
      using n by (simp add: head_count_def)
    with bound rows have "df_head n out = out"
      by (intro df_head_fixed) simp
    with Some show ?thesis by simp
  qed
  have "job_title_stage float_repr (job_title_column a) ?out1 = Inr out"
    unfolding fixed using job by (rule job_title_stage_idem)
  then show ?thesis
    by (simp add: shape l g')
qed

theorem transform_idempotent_job_titles_witness:
  "transform (\<lambda>q. []) tape
     (defaults ''in.csv'' ''out.csv'' \<lparr>job_title_column := Some ''Job Title'', num_rows := Some 2\<rparr>)
     [(''Job Title'', [CStr ''Engineer'', CStr ''Astronaut'']),
      (''Age'', [CInt 30, CInt 150]),
      (''City'', [CStr ''Boston'', CStr ''Austin''])] []
   = ((Inr [(''Job Title'', [CStr ''Engineer'', CStr ''Astronaut'']),
            (''Age'', [CInt 30, CInt 150]),
            (''City'', [CStr ''Boston'', CStr ''Austin''])], []), [])"
proof -
  let ?a = "defaults ''in.csv'' ''out.csv''
      \<lparr>job_title_column := Some ''Job Title'', num_rows := Some 2\<rparr>"
  have age: "age_column ?a = None \<or> age_column ?a = Some []"
    and city: "city_column ?a = None \<or> city_column ?a = Some []"
    and limit: "\<forall>n. num_rows ?a = Some n \<longrightarrow> 0 \<le> n"
    by (simp_all add: defaults_def)
  show ?thesis
    by (rule transform_idempotent_job_titles [OF people_run age city limit])
qed

theorem transform_twice_counterexample:
  "fst (fst (transform (\<lambda>q. []) tape (defaults ''in.csv'' ''out.csv'' \<lparr>age_column := Some ''Age''\<rparr>)
       [(''Age'', [CInt 30])] []))
     = Inr [(''Age'', [CStr ''26-35''])]
   \<and> fst (fst (transform (\<lambda>q. []) tape (defaults ''in.csv'' ''out.csv'' \<lparr>age_column := Some ''Age''\<rparr>)
       [(''Age'', [CStr ''26-35''])] []))
     = Inr [(''Age'', [CStr ''Unknown''])]
   \<and> fst (fst (transform (\<lambda>q. []) tape (defaults ''in.csv'' ''out.csv'' \<lparr>age_column := Some ''Age''\<rparr>)
       [(''Age'', [CStr ''26-35''])] []))
     \<noteq> Inr [(''Age'', [CStr ''26-35''])]
   \<and> transform (\<lambda>q. []) tape (defaults ''in.csv'' ''out.csv'' \<lparr>city_column := Some ''City''\<rparr>)
       [(''City'', [CStr ''Boston''])] [Some ''Ohio'', Some ''Iowa'']
     = ((Inr [(''City'', [CStr ''Ohio''])], []), [Some ''Iowa''])
   \<and> transform (\<lambda>q. []) tape (defaults ''in.csv'' ''out.csv'' \<lparr>city_column := Some ''City''\<rparr>)
       [(''City'', [CStr ''Ohio''])] [Some ''Iowa'']
     = ((Inr [(''City'', [CStr ''Iowa''])], []), [])
   \<and> fst (fst (transform (\<lambda>q. []) tape (defaults ''in.csv'' ''out.csv'' \<lparr>num_rows := Some (- 1)\<rparr>)
       [(''Age'', [CInt 30, CInt 41, CInt 52])] []))
     = Inr [(''Age'', [CInt 30, CInt 41])]
   \<and> fst (fst (transform (\<lambda>q. []) tape (defaults ''in.csv'' ''out.csv'' \<lparr>num_rows := Some (- 1)\<rparr>)
       [(''Age'', [CInt 30, CInt 41])] []))
     = Inr [(''Age'', [CInt 30])]"
  by code_simp

end
